theory Spec2Isabelle
  imports Main "HOL-Library.Signed_Division"
begin

section \<open>The documentation renderer of \<open>cmd/dagger/cmd/doc.go\<close>\<close>

text \<open>
  A Go \<open>string\<close> is a sequence of bytes; it is modelled as \<open>string\<close> (a \<open>char list\<close>, one
  \<open>char\<close> per byte), so \<open>length\<close> is Go's \<open>len\<close>. Text that is not ASCII appears as its UTF-8
  bytes.
\<close>

subsection \<open>Constants\<close>

definition textFormat :: string where
  "textFormat = ''txt''"

definition markdownFormat :: string where
  "markdownFormat = ''md''"

definition jsonFormat :: string where
  "jsonFormat = ''json''"

definition textPadding :: string where
  "textPadding = ''    ''"

text \<open>The string literal \<open>"\<dots>"\<close> of \<open>terminalTrim\<close>: U+2026, three bytes in UTF-8.\<close>

definition ellipsis :: string where
  "ellipsis = [CHR 0xE2, CHR 0x80, CHR 0xA6]"

subsection \<open>Failures\<close>

text \<open>
  \<open>Err\<close> is an \<open>error\<close> value returned by a call into another package. A run of the
  command ends early in two ways: \<open>lg.Fatal()\<close> logs a message (with the error it wraps)
  and exits, and a slice expression out of range panics.
\<close>

datatype error = Err string

datatype failure = Fatal string error | PanicSliceBounds

subsection \<open>Standard library: \<open>unicode/utf8\<close> and \<open>strings\<close>\<close>

text \<open>
  The table \<open>first\<close> of \<open>unicode/utf8\<close>, for a leading byte that is not ASCII: the length of
  the sequence it starts and the range accepted for the second byte, or \<open>None\<close> for a
  byte that starts no sequence.
\<close>

definition first :: "nat \<Rightarrow> (nat \<times> nat \<times> nat) option" where
  "first c =
    (if 0xC2 \<le> c \<and> c \<le> 0xDF then Some (2, 0x80, 0xBF)
     else if c = 0xE0 then Some (3, 0xA0, 0xBF)
     else if 0xE1 \<le> c \<and> c \<le> 0xEC then Some (3, 0x80, 0xBF)
     else if c = 0xED then Some (3, 0x80, 0x9F)
     else if c = 0xEE \<or> c = 0xEF then Some (3, 0x80, 0xBF)
     else if c = 0xF0 then Some (4, 0x90, 0xBF)
     else if 0xF1 \<le> c \<and> c \<le> 0xF3 then Some (4, 0x80, 0xBF)
     else if c = 0xF4 then Some (4, 0x80, 0x8F)
     else None)"

definition byteAt :: "string \<Rightarrow> nat \<Rightarrow> nat" where
  "byteAt s i = of_char (s ! i)"

text \<open>
  The well-formed multi-byte sequence at the head of \<open>s\<close>, if there is one: its length.
  \<open>s\<close> is not empty and its first byte is not ASCII.
\<close>

definition fullRune :: "string \<Rightarrow> nat option" where
  "fullRune s =
    (case first (byteAt s 0) of
       None \<Rightarrow> None
     | Some (sz, lo, hi) \<Rightarrow>
         if length s < sz then None
         else if byteAt s 1 < lo \<or> hi < byteAt s 1 then None
         else if sz = 2 then Some 2
         else if byteAt s 2 < 0x80 \<or> 0xBF < byteAt s 2 then None
         else if sz = 3 then Some 3
         else if byteAt s 3 < 0x80 \<or> 0xBF < byteAt s 3 then None
         else Some 4)"

text \<open>
  The number of bytes the decoding loops step over at the head of a non-empty \<open>s\<close>: one
  for an ASCII byte and for a byte that is not the start of a well-formed sequence.
\<close>

definition runeStep :: "string \<Rightarrow> nat" where
  "runeStep s =
    (if byteAt s 0 < 0x80 then 1
     else case fullRune s of None \<Rightarrow> 1 | Some n \<Rightarrow> n)"

text \<open>\<open>utf8.RuneCountInString\<close>: every byte of a malformed sequence counts as one rune.\<close>

fun RuneCountInString :: "string \<Rightarrow> nat" where
  "RuneCountInString [] = 0"
| "RuneCountInString (c # cs) = Suc (RuneCountInString (drop (runeStep (c # cs) - 1) cs))"

text \<open>\<open>utf8.ValidString\<close>.\<close>

fun ValidString :: "string \<Rightarrow> bool" where
  "ValidString [] = True"
| "ValidString (c # cs) =
    ((byteAt (c # cs) 0 < 0x80 \<or> fullRune (c # cs) \<noteq> None)
     \<and> ValidString (drop (runeStep (c # cs) - 1) cs))"

text \<open>
  \<open>strings.ReplaceAll s old new\<close>: the non-overlapping occurrences of \<open>old\<close>, from the
  left. An empty \<open>old\<close> matches at the start and after every rune.
\<close>

function replaceNonEmpty :: "string \<Rightarrow> string \<Rightarrow> string \<Rightarrow> string" where
  "replaceNonEmpty s old new =
    (if s = [] \<or> old = [] then s
     else if take (length old) s = old then new @ replaceNonEmpty (drop (length old) s) old new
     else hd s # replaceNonEmpty (tl s) old new)"
  by pat_completeness auto
termination
  by (relation "measure (\<lambda>(s, old, new). length s)") auto

declare replaceNonEmpty.simps [simp del]

fun replaceEmpty :: "string \<Rightarrow> string \<Rightarrow> string" where
  "replaceEmpty [] new = []"
| "replaceEmpty (c # cs) new =
    take (runeStep (c # cs)) (c # cs) @ new @ replaceEmpty (drop (runeStep (c # cs) - 1) cs) new"

definition ReplaceAll :: "string \<Rightarrow> string \<Rightarrow> string \<Rightarrow> string" where
  "ReplaceAll s old new =
    (if old = [] then new @ replaceEmpty s new else replaceNonEmpty s old new)"

text \<open>\<open>strings.TrimPrefix\<close>.\<close>

definition TrimPrefix :: "string \<Rightarrow> string \<Rightarrow> string" where
  "TrimPrefix s p = (if take (length p) s = p then drop (length p) s else s)"

subsection \<open>\<open>mdEscape\<close>\<close>

definition escape :: "string list" where
  "escape = [''|'', ''<'', ''>'']"

definition mdEscape :: "string \<Rightarrow> string" where
  "mdEscape s = foldl (\<lambda>s c. ReplaceAll s c ([CHR 0x5C] @ c)) s escape"

subsection \<open>\<open>terminalTrim\<close>\<close>

text \<open>
  The loop of \<open>terminalTrim\<close>. \<open>msg[0:len(msg)-4]\<close> panics when \<open>len(msg) < 4\<close>.
\<close>

function trimLoop :: "int \<Rightarrow> string \<Rightarrow> failure + string" where
  "trimLoop sz msg =
    (if int (RuneCountInString msg) > sz then
       (if length msg < 4 then Inl PanicSliceBounds
        else trimLoop sz (take (length msg - 4) msg @ ellipsis))
     else Inr msg)"
  by pat_completeness auto
termination
  by (relation "measure (\<lambda>(sz, msg). length msg)") (auto simp: ellipsis_def)

declare trimLoop.simps [simp del]

text \<open>
  \<open>getSize\<close> is what \<open>term.GetSize(1)\<close> returns: an error, or the width and the height.
  \<open>size /= 2\<close> is Go's division on \<open>int\<close>, which truncates towards zero.
\<close>

definition terminalTrim :: "error + int \<times> int \<Rightarrow> string \<Rightarrow> failure + string" where
  "terminalTrim getSize msg =
    (case getSize of
       Inl err \<Rightarrow> Inr msg
     | Inr (width, height) \<Rightarrow> trimLoop (width sdiv 2) msg)"

subsection \<open>Types used for JSON generation\<close>

text \<open>
  A Go slice is \<open>nil\<close> or allocated, and \<open>encoding/json\<close> tells the two apart: a \<open>nil\<close>
  slice is written \<open>null\<close>, an allocated slice with no element \<open>[]\<close>.
\<close>

datatype 'a slice = NilSlice | Slice "'a list"

fun elems :: "'a slice \<Rightarrow> 'a list" where
  "elems NilSlice = []"
| "elems (Slice xs) = xs"

fun appendSlice :: "'a slice \<Rightarrow> 'a \<Rightarrow> 'a slice" where
  "appendSlice NilSlice x = Slice [x]"
| "appendSlice (Slice xs) x = Slice (xs @ [x])"

record ValueJSON =
  Name :: string
  Type :: string
  Description :: string

record FieldJSON =
  Name :: string
  Description :: string
  Inputs :: "ValueJSON slice"
  Outputs :: "ValueJSON slice"

record PackageJSON =
  Name :: string
  Description :: string
  Fields :: "FieldJSON slice"

text \<open>The zero values \<open>ValueJSON{}\<close>, \<open>FieldJSON{}\<close> and \<open>PackageJSON{}\<close>.\<close>

definition zeroValueJSON :: ValueJSON where
  "zeroValueJSON = \<lparr>ValueJSON.Name = [], Type = [], Description = []\<rparr>"

definition zeroFieldJSON :: FieldJSON where
  "zeroFieldJSON = \<lparr>FieldJSON.Name = [], Description = [], Inputs = NilSlice, Outputs = NilSlice\<rparr>"

definition zeroPackageJSON :: PackageJSON where
  "zeroPackageJSON = \<lparr>PackageJSON.Name = [], Description = [], Fields = NilSlice\<rparr>"

text \<open>
  The document \<open>json.MarshalIndent\<close> writes, as a tree: the exported fields of a struct
  in the order of their declaration under their own names, a string as a string, a slice
  as \<open>null\<close> or an array. The layout of the text (indentation, escapes inside strings) is
  left to the library. None of these types makes the encoder fail.
\<close>

datatype json = JNull | JString string | JArray "json list" | JObject "(string \<times> json) list"

fun marshalSlice :: "('a \<Rightarrow> json) \<Rightarrow> 'a slice \<Rightarrow> json" where
  "marshalSlice f NilSlice = JNull"
| "marshalSlice f (Slice xs) = JArray (map f xs)"

definition marshalValue :: "ValueJSON \<Rightarrow> json" where
  "marshalValue v =
    JObject [(''Name'', JString (ValueJSON.Name v)),
             (''Type'', JString (Type v)),
             (''Description'', JString (ValueJSON.Description v))]"

definition marshalField :: "FieldJSON \<Rightarrow> json" where
  "marshalField f =
    JObject [(''Name'', JString (FieldJSON.Name f)),
             (''Description'', JString (FieldJSON.Description f)),
             (''Inputs'', marshalSlice marshalValue (Inputs f)),
             (''Outputs'', marshalSlice marshalValue (Outputs f))]"

definition MarshalIndent :: "PackageJSON \<Rightarrow> error + json" where
  "MarshalIndent p =
    Inr (JObject [(''Name'', JString (PackageJSON.Name p)),
                  (''Description'', JString (PackageJSON.Description p)),
                  (''Fields'', marshalSlice marshalField (Fields p))])"

subsection \<open>What is written to standard output\<close>

text \<open>
  \<open>Print\<close> is one call of \<open>fmt.Printf\<close> or \<open>fmt.Println\<close>. \<open>Table\<close> is one
  \<open>tabwriter.Writer\<close>: the texts written to it, in order, which \<open>Flush\<close> aligns in
  columns and writes out. \<open>Document\<close> is the final \<open>fmt.Printf("%s\n", data)\<close> of the
  marshalled package.
\<close>

datatype printed = Print string | Table "string list" | Document json

abbreviation (input) NL :: string where
  "NL \<equiv> [CHR 0x0A]"

abbreviation (input) TAB :: string where
  "TAB \<equiv> [CHR 0x09]"

subsection \<open>The compiled package\<close>

text \<open>
  \<open>compiler.Value\<close>, \<open>compiler.Field\<close>, \<open>cue.Kind\<close>, the packages \<open>common\<close> and
  \<open>environment\<close> and \<open>term.GetSize\<close> are declared outside this file. A value is a handle
  of type \<open>'v\<close>; what the file calls on it is a parameter:
  \<^item> \<open>valueDocString\<close> is \<open>common.ValueDocString\<close>, \<open>formatValue\<close> is \<open>common.FormatValue\<close>;
  \<^item> \<open>valuePath v\<close> is \<open>v.Path().String()\<close>;
  \<^item> \<open>incompleteKind v\<close> is \<open>v.Cue().IncompleteKind()\<close>, a \<open>uint16\<close> mask, and \<open>StructKind\<close>
    is \<open>cue.StructKind\<close>;
  \<^item> \<open>valueFields v\<close> is \<open>v.Fields(cue.Definitions(true))\<close>;
  \<^item> \<open>scanInputs\<close> and \<open>scanOutputs\<close> are \<open>environment.ScanInputs\<close> and
    \<open>environment.ScanOutputs\<close> (the context is not modelled);
  \<^item> \<open>getSize\<close> is the result of \<open>term.GetSize(1)\<close>, the same at every call of one run.
\<close>

type_synonym Kind = nat

record 'v Field =
  IsDefinition :: bool
  Label :: string
  Value :: 'v

record 'v deps =
  valueDocString :: "'v \<Rightarrow> string"
  formatValue :: "'v \<Rightarrow> string"
  valuePath :: "'v \<Rightarrow> string"
  incompleteKind :: "'v \<Rightarrow> Kind"
  StructKind :: Kind
  valueFields :: "'v \<Rightarrow> error + 'v Field list"
  scanInputs :: "'v \<Rightarrow> 'v list"
  scanOutputs :: "'v \<Rightarrow> 'v list"
  getSize :: "error + int \<times> int"

subsection \<open>\<open>formatLabel\<close> and the three table printers\<close>

definition formatLabel :: "'v deps \<Rightarrow> string \<Rightarrow> 'v \<Rightarrow> string" where
  "formatLabel d name val = TrimPrefix (valuePath d val) (name @ ''.'')"

text \<open>
  The rows \<open>printValuesText\<close> writes to its tabwriter. \<open>terminalTrim\<close> may panic; the rows
  after it are then never written.
\<close>

fun textRows :: "'v deps \<Rightarrow> string \<Rightarrow> 'v list \<Rightarrow> failure + string list" where
  "textRows d libName [] = Inr []"
| "textRows d libName (i # values) =
    (case terminalTrim (getSize d) (valueDocString d i) of
       Inl f \<Rightarrow> Inl f
     | Inr docStr \<Rightarrow>
         (case textRows d libName values of
            Inl f \<Rightarrow> Inl f
          | Inr rows \<Rightarrow>
              Inr ((TAB @ TAB @ formatLabel d libName i @ TAB @ formatValue d i @ TAB
                    @ docStr @ NL) # rows)))"

definition printValuesText :: "'v deps \<Rightarrow> string \<Rightarrow> 'v list \<Rightarrow> failure + printed list" where
  "printValuesText d libName values =
    (case textRows d libName values of
       Inl f \<Rightarrow> Inl f
     | Inr rows \<Rightarrow> Inr [Print (NL @ textPadding @ ''Inputs:'' @ NL), Table rows])"

definition markdownRow :: "'v deps \<Rightarrow> string \<Rightarrow> 'v \<Rightarrow> string" where
  "markdownRow d libName i =
    ''|*'' @ formatLabel d libName i @ ''*'' @ TAB
    @ ''|``'' @ mdEscape (formatValue d i) @ ''``'' @ TAB
    @ ''|'' @ mdEscape (valueDocString d i) @ TAB @ ''|'' @ NL"

definition printValuesMarkdown :: "'v deps \<Rightarrow> string \<Rightarrow> 'v list \<Rightarrow> printed list" where
  "printValuesMarkdown d libName values =
    [Table ([''| Name'' @ TAB @ ''| Type'' @ TAB @ ''| Description    '' @ TAB @ ''|'' @ NL,
             ''| -------------'' @ TAB @ ''|:-------------:'' @ TAB @ ''|:-------------:'' @ TAB
               @ ''|'' @ NL]
            @ map (markdownRow d libName) values
            @ [NL])]"

definition valuesToJSON :: "'v deps \<Rightarrow> string \<Rightarrow> 'v list \<Rightarrow> ValueJSON slice" where
  "valuesToJSON d libName values =
    foldl (\<lambda>val i.
             appendSlice val
               (zeroValueJSON\<lparr>ValueJSON.Name := formatLabel d libName i,
                               Type := formatValue d i,
                               ValueJSON.Description := valueDocString d i\<rparr>))
          (Slice []) values"

subsection \<open>\<open>PrintDoc\<close>\<close>

text \<open>What \<open>PrintDoc\<close> has written so far, and its \<open>packageJSON\<close>.\<close>

record docState =
  out :: "printed list"
  packageJSON :: PackageJSON

definition emit :: "printed list \<Rightarrow> docState \<Rightarrow> docState" where
  "emit os st = st\<lparr>out := out st @ os\<rparr>"

text \<open>The first \<open>switch format\<close>: package name and description.\<close>

definition packageHeader :: "'v deps \<Rightarrow> string \<Rightarrow> 'v \<Rightarrow> string \<Rightarrow> docState \<Rightarrow> docState" where
  "packageHeader d packageName val format st =
    (if format = textFormat then
       emit [Print (''Package '' @ packageName @ NL),
             Print (NL @ valueDocString d val @ NL)] st
     else if format = markdownFormat then
       (let st1 = emit [Print (''## Package '' @ mdEscape packageName @ NL)] st;
            comment = valueDocString d val
        in if comment = ''-'' then emit [Print NL] st1
           else emit [Print (NL @ mdEscape comment @ NL @ NL)] st1)
     else if format = jsonFormat then
       (let pj = (packageJSON st)\<lparr>PackageJSON.Name := packageName\<rparr>;
            comment = valueDocString d val
        in st\<lparr>packageJSON :=
                 (if comment \<noteq> [] then pj\<lparr>PackageJSON.Description := comment\<rparr> else pj)\<rparr>)
     else st)"

text \<open>
  The \<open>switch format\<close> under \<open>// Field Name + Description\<close>: what it prints and the
  \<open>fieldJSON\<close> it leaves. \<open>v\<close> is the field's value, \<open>val\<close> the package's.
\<close>

definition fieldHeader ::
  "'v deps \<Rightarrow> string \<Rightarrow> string \<Rightarrow> 'v \<Rightarrow> 'v \<Rightarrow> FieldJSON \<Rightarrow> printed list \<times> FieldJSON" where
  "fieldHeader d format name v val fieldJSON =
    (let comment = valueDocString d v
     in if format = textFormat then
          ([Print (NL @ name @ NL @ NL @ textPadding @ comment @ NL)], fieldJSON)
        else if format = markdownFormat then
          ([Print (''### '' @ name @ NL @ NL)]
           @ (if comment \<noteq> ''-'' then [Print (mdEscape comment @ NL @ NL)] else []),
           fieldJSON)
        else if format = jsonFormat then
          (let fj = fieldJSON\<lparr>FieldJSON.Name := name\<rparr>;
               comment = valueDocString d val
           in ([], if comment \<noteq> [] then fj\<lparr>FieldJSON.Description := comment\<rparr> else fj))
        else ([], fieldJSON))"

text \<open>The \<open>switch format\<close> under \<open>// Inputs\<close>.\<close>

definition fieldInputs ::
  "'v deps \<Rightarrow> string \<Rightarrow> string \<Rightarrow> 'v list \<Rightarrow> FieldJSON
    \<Rightarrow> failure + printed list \<times> FieldJSON" where
  "fieldInputs d format name inp fieldJSON =
    (if format = textFormat then
       (if length inp = 0 then Inr ([Print (NL @ textPadding @ ''Inputs: none'' @ NL)], fieldJSON)
        else case printValuesText d name inp of
               Inl f \<Rightarrow> Inl f
             | Inr os \<Rightarrow> Inr (os, fieldJSON))
     else if format = markdownFormat then
       Inr ([Print (''#### '' @ mdEscape name @ '' Inputs'' @ NL @ NL)]
            @ (if length inp = 0 then [Print (''_No input._'' @ NL @ NL)]
               else printValuesMarkdown d name inp),
            fieldJSON)
     else if format = jsonFormat then
       Inr ([], fieldJSON\<lparr>Inputs := valuesToJSON d name inp\<rparr>)
     else Inr ([], fieldJSON))"

text \<open>
  The \<open>switch format\<close> under \<open>// Outputs\<close>; in JSON mode it also appends the field to
  \<open>packageJSON.Fields\<close>.
\<close>

definition fieldOutputs ::
  "'v deps \<Rightarrow> string \<Rightarrow> string \<Rightarrow> 'v list \<Rightarrow> FieldJSON \<Rightarrow> PackageJSON
    \<Rightarrow> failure + printed list \<times> PackageJSON" where
  "fieldOutputs d format name outp fieldJSON pj =
    (if format = textFormat then
       (if length outp = 0 then Inr ([Print (NL @ textPadding @ ''Outputs: none'' @ NL)], pj)
        else case printValuesText d name outp of
               Inl f \<Rightarrow> Inl f
             | Inr os \<Rightarrow> Inr (os, pj))
     else if format = markdownFormat then
       Inr ([Print (''#### '' @ mdEscape name @ '' Outputs'' @ NL @ NL)]
            @ (if length outp = 0 then [Print (''_No output._'' @ NL @ NL)]
               else printValuesMarkdown d name outp),
            pj)
     else if format = jsonFormat then
       (let fj = fieldJSON\<lparr>Outputs := valuesToJSON d name outp\<rparr>
        in Inr ([], pj\<lparr>Fields := appendSlice (Fields pj) fj\<rparr>))
     else Inr ([], pj))"

text \<open>One iteration of the loop over \<open>fields\<close>.\<close>

definition docField ::
  "'v deps \<Rightarrow> string \<Rightarrow> 'v \<Rightarrow> docState \<Rightarrow> 'v Field \<Rightarrow> failure + docState" where
  "docField d format val st field =
    (if \<not> IsDefinition field then Inr st
     else
       let name = Label field; v = Value field
       in if incompleteKind d v \<noteq> StructKind d then Inr st
          else
            (case fieldHeader d format name v val zeroFieldJSON of
               (os1, fj1) \<Rightarrow>
                 (case fieldInputs d format name (scanInputs d v) fj1 of
                    Inl f \<Rightarrow> Inl f
                  | Inr (os2, fj2) \<Rightarrow>
                      (case fieldOutputs d format name (scanOutputs d v) fj2 (packageJSON st) of
                         Inl f \<Rightarrow> Inl f
                       | Inr (os3, pj) \<Rightarrow>
                           Inr \<lparr>out = out st @ os1 @ os2 @ os3, packageJSON = pj\<rparr>))))"

fun docFields ::
  "'v deps \<Rightarrow> string \<Rightarrow> 'v \<Rightarrow> docState \<Rightarrow> 'v Field list \<Rightarrow> failure + docState" where
  "docFields d format val st [] = Inr st"
| "docFields d format val st (field # rest) =
    (case docField d format val st field of
       Inl f \<Rightarrow> Inl f
     | Inr st' \<Rightarrow> docFields d format val st' rest)"

text \<open>
  \<open>PrintDoc\<close>. The result is a failure (what had been printed before it is not kept),
  or everything printed together with the final \<open>packageJSON\<close>.
\<close>

definition PrintDoc :: "'v deps \<Rightarrow> string \<Rightarrow> 'v \<Rightarrow> string \<Rightarrow> failure + docState" where
  "PrintDoc d packageName val format =
    (case valueFields d val of
       Inl err \<Rightarrow> Inl (Fatal ''cannot get fields'' err)
     | Inr flds \<Rightarrow>
         (case docFields d format val
                 (packageHeader d packageName val format \<lparr>out = [], packageJSON = zeroPackageJSON\<rparr>)
                 flds of
            Inl f \<Rightarrow> Inl f
          | Inr st \<Rightarrow>
              if format = jsonFormat then
                (case MarshalIndent (packageJSON st) of
                   Inl err \<Rightarrow> Inl (Fatal ''json marshal'' err)
                 | Inr data \<Rightarrow> Inr (emit [Document data] st))
              else Inr st))"

subsection \<open>The members \<open>PrintDoc\<close> keeps, and an example package\<close>

text \<open>
  The two guards at the head of the loop body keep a member that is a definition and
  whose value has exactly the kind \<open>cue.StructKind\<close>.
\<close>

definition qualifies :: "'v deps \<Rightarrow> 'v Field \<Rightarrow> bool" where
  "qualifies d field = (IsDefinition field \<and> incompleteKind d (Value field) = StructKind d)"

text \<open>
  The first thing the loop body prints for a member it keeps, in text and in Markdown
  mode: the line that carries the member's name.
\<close>

definition nameLine :: "'v deps \<Rightarrow> string \<Rightarrow> 'v Field \<Rightarrow> printed" where
  "nameLine d format field =
    (if format = textFormat then
       Print (NL @ Label field @ NL @ NL @ textPadding @ valueDocString d (Value field) @ NL)
     else Print (''### '' @ Label field @ NL @ NL))"

text \<open>
  A package whose values are named by their paths. Its root lists the definition \<open>#A\<close>
  (a struct with two inputs and no output), the plain field \<open>x\<close>, the definition \<open>#N\<close>
  (a string) and the definition \<open>#B\<close> (a struct with no comment, no input and no output).
  The argument is what \<open>term.GetSize(1)\<close> returns.
\<close>

definition exampleFields :: "string Field list" where
  "exampleFields =
    [\<lparr>IsDefinition = True, Label = ''#A'', Value = ''#A''\<rparr>,
     \<lparr>IsDefinition = False, Label = ''x'', Value = ''x''\<rparr>,
     \<lparr>IsDefinition = True, Label = ''#N'', Value = ''#N''\<rparr>,
     \<lparr>IsDefinition = True, Label = ''#B'', Value = ''#B''\<rparr>]"

definition example :: "error + int \<times> int \<Rightarrow> string deps" where
  "example gs =
    \<lparr>valueDocString = (\<lambda>v. if v = ''root'' then ''Package doc''
                            else if v = ''#A'' then ''A doc''
                            else if v = ''#A.in|put'' then ''ab'' else ''-''),
     formatValue = (\<lambda>v. ''string''),
     valuePath = (\<lambda>v. v),
     incompleteKind = (\<lambda>v. if v = ''#A'' \<or> v = ''#B'' \<or> v = ''x'' then 256 else 16),
     StructKind = 256,
     valueFields = (\<lambda>v. if v = ''root'' then Inr exampleFields else Inr []),
     scanInputs = (\<lambda>v. if v = ''#A'' then [''#A.in|put'', ''#A.y''] else []),
     scanOutputs = (\<lambda>v. []),
     getSize = gs\<rparr>"

section \<open>Properties\<close>

subsection \<open>Rune counting and the truncation loop\<close>

lemma RuneCountInString_le_length: "RuneCountInString s \<le> length s"
proof (induction s rule: RuneCountInString.induct)
  case 1
  show ?case by simp
next
  case (2 c cs)
  have "length (drop (runeStep (c # cs) - 1) cs) \<le> length cs" by simp
  with 2 show ?case by simp
qed

lemma trimLoop_fits: "int (RuneCountInString msg) \<le> sz \<Longrightarrow> trimLoop sz msg = Inr msg"
  by (subst trimLoop.simps) simp

text \<open>
  From a half width of three on, a message too long has at least four bytes, so the
  slice is in range and the loop ends with a result.
\<close>

lemma trimLoop_wide: "3 \<le> sz \<Longrightarrow> \<exists>r. trimLoop sz msg = Inr r"
proof (induction sz msg rule: trimLoop.induct)
  case (1 sz msg)
  show ?case
  proof (cases "int (RuneCountInString msg) > sz")
    case True
    with 1(2) have "4 \<le> RuneCountInString msg" by simp
    with RuneCountInString_le_length [of msg] have len: "\<not> length msg < 4" by simp
    from 1(1) [OF True len 1(2)] obtain r
      where "trimLoop sz (take (length msg - 4) msg @ ellipsis) = Inr r" by blast
    with True len show ?thesis by (subst trimLoop.simps) simp
  next
    case False
    then show ?thesis by (subst trimLoop.simps) simp
  qed
qed

lemma terminalTrim_wide: "6 \<le> width \<Longrightarrow> \<exists>r. terminalTrim (Inr (width, height)) msg = Inr r"
proof -
  assume "6 \<le> width"
  then have "3 \<le> width sdiv 2" by (simp add: signed_divide_int_def sgn_if)
  from trimLoop_wide [OF this] show ?thesis by (simp add: terminalTrim_def)
qed

lemma terminalTrim_no_terminal: "terminalTrim (Inl err) msg = Inr msg"
  by (simp add: terminalTrim_def)

text \<open>
  C9: when a width is detected, a message whose rune count does not exceed half of it
  comes back unchanged; at width 20 the message \<open>abcdefghijklmnop\<close> comes back as
  \<open>abcdefghi\<close> followed by the ellipsis, which is ten runes.
\<close>

theorem terminalTrim_noop_and_example:
  "(int (RuneCountInString msg) \<le> width sdiv 2
      \<longrightarrow> terminalTrim (Inr (width, height)) msg = Inr msg)
   \<and> terminalTrim (Inr (20, height)) ''abcdefghijklmnop'' = Inr (''abcdefghi'' @ ellipsis)
   \<and> RuneCountInString (''abcdefghi'' @ ellipsis) \<le> 10"
proof (intro conjI impI)
  assume "int (RuneCountInString msg) \<le> width sdiv 2"
  then show "terminalTrim (Inr (width, height)) msg = Inr msg"
    by (simp add: terminalTrim_def trimLoop_fits)
next
  have "trimLoop 10 ''abcdefghijklmnop'' = Inr (''abcdefghi'' @ ellipsis)" by code_simp
  then show "terminalTrim (Inr (20, height)) ''abcdefghijklmnop'' = Inr (''abcdefghi'' @ ellipsis)"
    by (simp add: terminalTrim_def signed_divide_int_def)
next
  show "RuneCountInString (''abcdefghi'' @ ellipsis) \<le> 10" by code_simp
qed

theorem terminalTrim_noop_and_example_witness:
  "int (RuneCountInString ''hello'') \<le> 20 sdiv 2
   \<and> terminalTrim (Inr (20, 24)) ''hello'' = Inr ''hello''"
proof -
  have h: "int (RuneCountInString ''hello'') \<le> 20 sdiv 2" by code_simp
  with terminalTrim_noop_and_example [of "''hello''" 20 24] show ?thesis by blast
qed

text \<open>
  C3: \<open>terminalTrim\<close> is not total. On a terminal two columns wide the message \<open>ab\<close> has
  more runes than half the width and fewer than four bytes, and the slice
  \<open>msg[0:len(msg)-4]\<close> panics; so does the message \<open>-\<close> on a terminal that reports no
  column, and \<open>abc\<close> on one five columns wide.
\<close>

theorem terminalTrim_panics:
  "terminalTrim (Inr (2, 24)) ''ab'' = Inl PanicSliceBounds
   \<and> terminalTrim (Inr (0, 0)) ''-'' = Inl PanicSliceBounds
   \<and> terminalTrim (Inr (5, 24)) ''abc'' = Inl PanicSliceBounds"
  by code_simp

text \<open>
  C2: the loop counts runes and cuts bytes. On a terminal six columns wide the
  well-formed message \<open>a\<close>, \<open>U+00E9\<close>, \<open>U+00E9\<close>, \<open>a\<close> (six bytes, four runes) loses its
  last four bytes: what is left is \<open>a\<close> and the first byte of \<open>U+00E9\<close>, followed by the
  ellipsis, which is not well-formed UTF-8 and is returned as it is.
\<close>

theorem terminalTrim_cuts_inside_rune:
  "ValidString [CHR ''a'', CHR 0xC3, CHR 0xA9, CHR 0xC3, CHR 0xA9, CHR ''a'']
   \<and> RuneCountInString [CHR ''a'', CHR 0xC3, CHR 0xA9, CHR 0xC3, CHR 0xA9, CHR ''a''] = 4
   \<and> terminalTrim (Inr (6, 24)) [CHR ''a'', CHR 0xC3, CHR 0xA9, CHR 0xC3, CHR 0xA9, CHR ''a'']
       = Inr ([CHR ''a'', CHR 0xC3] @ ellipsis)
   \<and> \<not> ValidString ([CHR ''a'', CHR 0xC3] @ ellipsis)"
  by code_simp

subsection \<open>Markdown escaping\<close>

lemma replaceNonEmpty_single:
  "replaceNonEmpty s [c] new = concat (map (\<lambda>x. if x = c then new else [x]) s)"
proof (induction s)
  case Nil
  show ?case by (subst replaceNonEmpty.simps) simp
next
  case (Cons a s)
  show ?case by (subst replaceNonEmpty.simps) (simp add: Cons)
qed

lemma concat_map_concat_map:
  "concat (map f (concat (map g s))) = concat (map (\<lambda>x. concat (map f (g x))) s)"
  by (induction s) simp_all

lemma mdEscape_bytes:
  "mdEscape s =
    concat (map (\<lambda>c. if c = CHR ''|'' \<or> c = CHR ''<'' \<or> c = CHR ''>'' then [CHR 0x5C, c] else [c]) s)"
proof -
  have "mdEscape s =
      concat (map (\<lambda>x. if x = CHR ''>'' then [CHR 0x5C, CHR ''>''] else [x])
        (concat (map (\<lambda>x. if x = CHR ''<'' then [CHR 0x5C, CHR ''<''] else [x])
          (concat (map (\<lambda>x. if x = CHR ''|'' then [CHR 0x5C, CHR ''|''] else [x]) s)))))"
    by (simp add: mdEscape_def escape_def ReplaceAll_def replaceNonEmpty_single)
  also have "\<dots> =
      concat (map (\<lambda>c. if c = CHR ''|'' \<or> c = CHR ''<'' \<or> c = CHR ''>''
                         then [CHR 0x5C, c] else [c]) s)"
    unfolding concat_map_concat_map
    by (rule arg_cong [where f = concat], rule map_cong) auto
  finally show ?thesis .
qed

lemma mdEscape_plain:
  "set s \<inter> {CHR ''|'', CHR ''<'', CHR ''>''} = {} \<Longrightarrow> mdEscape s = s"
  unfolding mdEscape_bytes by (induction s) auto

lemma length_mdEscape:
  "length (mdEscape s) =
    length s + length (filter (\<lambda>c. c = CHR ''|'' \<or> c = CHR ''<'' \<or> c = CHR ''>'') s)"
  unfolding mdEscape_bytes by (induction s) auto

lemma mdEscape_changes:
  assumes "set s \<inter> {CHR ''|'', CHR ''<'', CHR ''>''} \<noteq> {}"
  shows "mdEscape s \<noteq> s"
proof -
  from assms have "filter (\<lambda>c. c = CHR ''|'' \<or> c = CHR ''<'' \<or> c = CHR ''>'') s \<noteq> []"
    by (auto simp: filter_empty_conv)
  then have "length (mdEscape s) \<noteq> length s" by (simp add: length_mdEscape)
  then show ?thesis by auto
qed

text \<open>
  C7: \<open>mdEscape\<close> puts a backslash before every \<open>|\<close>, \<open><\<close> and \<open>>\<close> and leaves every other
  byte alone; a string with none of the three is returned unchanged, so escaping it twice
  is escaping it once; and \<open>a|b\<close> becomes \<open>a\|b\<close>.
\<close>

theorem mdEscape_escapes:
  "mdEscape s =
     concat (map (\<lambda>c. if c = CHR ''|'' \<or> c = CHR ''<'' \<or> c = CHR ''>''
                        then [CHR 0x5C, c] else [c]) s)
   \<and> (set s \<inter> {CHR ''|'', CHR ''<'', CHR ''>''} = {}
        \<longrightarrow> mdEscape s = s \<and> mdEscape (mdEscape s) = mdEscape s)
   \<and> mdEscape ''a|b'' = [CHR ''a'', CHR 0x5C, CHR ''|'', CHR ''b'']"
proof (intro conjI impI)
  show "mdEscape s =
     concat (map (\<lambda>c. if c = CHR ''|'' \<or> c = CHR ''<'' \<or> c = CHR ''>''
                        then [CHR 0x5C, c] else [c]) s)"
    by (rule mdEscape_bytes)
next
  assume plain: "set s \<inter> {CHR ''|'', CHR ''<'', CHR ''>''} = {}"
  then show "mdEscape s = s" by (rule mdEscape_plain)
  with plain show "mdEscape (mdEscape s) = mdEscape s" by simp
next
  show "mdEscape ''a|b'' = [CHR ''a'', CHR 0x5C, CHR ''|'', CHR ''b'']"
    by (simp add: mdEscape_bytes)
qed

theorem mdEscape_escapes_witness:
  "set ''No input.'' \<inter> {CHR ''|'', CHR ''<'', CHR ''>''} = {}
   \<and> mdEscape ''No input.'' = ''No input.''
   \<and> mdEscape (mdEscape ''No input.'') = mdEscape ''No input.''"
proof -
  have h: "set ''No input.'' \<inter> {CHR ''|'', CHR ''<'', CHR ''>''} = {}" by simp
  with mdEscape_escapes [of "''No input.''"] show ?thesis by blast
qed

subsection \<open>The table printers\<close>

lemma foldl_appendSlice:
  "foldl (\<lambda>val i. appendSlice val (g i)) (Slice acc) vs = Slice (acc @ map g vs)"
  by (induction vs arbitrary: acc) simp_all

lemma valuesToJSON_map:
  "valuesToJSON d libName vs =
    Slice (map (\<lambda>i. \<lparr>ValueJSON.Name = formatLabel d libName i, Type = formatValue d i,
                      Description = valueDocString d i\<rparr>) vs)"
  unfolding valuesToJSON_def foldl_appendSlice by (simp add: zeroValueJSON_def)

text \<open>
  C10: in a row of a Markdown table the type and the description go through
  \<open>mdEscape\<close> and the name does not: it is the path without the prefix
  \<open>libName.\<close>, as it is, which differs from its escaped form as soon as it has a
  \<open>|\<close>, \<open><\<close> or \<open>>\<close>.
\<close>

theorem printValuesMarkdown_name_verbatim:
  "printValuesMarkdown d libName vs =
     [Table ([''| Name'' @ TAB @ ''| Type'' @ TAB @ ''| Description    '' @ TAB @ ''|'' @ NL,
              ''| -------------'' @ TAB @ ''|:-------------:'' @ TAB @ ''|:-------------:'' @ TAB
                @ ''|'' @ NL]
             @ map (\<lambda>i. ''|*'' @ TrimPrefix (valuePath d i) (libName @ ''.'') @ ''*'' @ TAB
                         @ ''|``'' @ mdEscape (formatValue d i) @ ''``'' @ TAB
                         @ ''|'' @ mdEscape (valueDocString d i) @ TAB @ ''|'' @ NL) vs
             @ [NL])]
   \<and> (set (TrimPrefix (valuePath d i) (libName @ ''.'')) \<inter> {CHR ''|'', CHR ''<'', CHR ''>''} \<noteq> {}
        \<longrightarrow> TrimPrefix (valuePath d i) (libName @ ''.'')
            \<noteq> mdEscape (TrimPrefix (valuePath d i) (libName @ ''.'')))"
proof (intro conjI impI)
  show "printValuesMarkdown d libName vs =
     [Table ([''| Name'' @ TAB @ ''| Type'' @ TAB @ ''| Description    '' @ TAB @ ''|'' @ NL,
              ''| -------------'' @ TAB @ ''|:-------------:'' @ TAB @ ''|:-------------:'' @ TAB
                @ ''|'' @ NL]
             @ map (\<lambda>i. ''|*'' @ TrimPrefix (valuePath d i) (libName @ ''.'') @ ''*'' @ TAB
                         @ ''|``'' @ mdEscape (formatValue d i) @ ''``'' @ TAB
                         @ ''|'' @ mdEscape (valueDocString d i) @ TAB @ ''|'' @ NL) vs
             @ [NL])]"
    by (simp add: printValuesMarkdown_def markdownRow_def formatLabel_def)
next
  assume "set (TrimPrefix (valuePath d i) (libName @ ''.'')) \<inter> {CHR ''|'', CHR ''<'', CHR ''>''} \<noteq> {}"
  from mdEscape_changes [OF this]
  show "TrimPrefix (valuePath d i) (libName @ ''.'')
      \<noteq> mdEscape (TrimPrefix (valuePath d i) (libName @ ''.''))"
    by simp
qed

theorem printValuesMarkdown_name_verbatim_witness:
  "set (TrimPrefix (valuePath (example (Inl (Err []))) ''#A.in|put'') (''#A'' @ ''.''))
      \<inter> {CHR ''|'', CHR ''<'', CHR ''>''} \<noteq> {}
   \<and> TrimPrefix (valuePath (example (Inl (Err []))) ''#A.in|put'') (''#A'' @ ''.'') = ''in|put''
   \<and> ''in|put'' \<noteq> mdEscape ''in|put''
   \<and> printValuesMarkdown (example (Inl (Err []))) ''#A'' [''#A.in|put''] =
       [Table [''| Name'' @ TAB @ ''| Type'' @ TAB @ ''| Description    '' @ TAB @ ''|'' @ NL,
               ''| -------------'' @ TAB @ ''|:-------------:'' @ TAB @ ''|:-------------:'' @ TAB
                 @ ''|'' @ NL,
               ''|*in|put*'' @ TAB @ ''|``string``'' @ TAB @ ''|ab'' @ TAB @ ''|'' @ NL,
               NL]]"
proof -
  have label: "TrimPrefix (valuePath (example (Inl (Err []))) ''#A.in|put'') (''#A'' @ ''.'')
      = ''in|put''"
    by (simp add: example_def TrimPrefix_def)
  have special: "set ''in|put'' \<inter> {CHR ''|'', CHR ''<'', CHR ''>''} \<noteq> {}" by simp
  have plain: "mdEscape ''string'' = ''string''" "mdEscape ''ab'' = ''ab''"
    by (simp_all add: mdEscape_bytes)
  have doc: "valueDocString (example (Inl (Err []))) ''#A.in|put'' = ''ab''"
    "formatValue (example (Inl (Err []))) ''#A.in|put'' = ''string''"
    by (simp_all add: example_def)
  have label': "TrimPrefix (valuePath (example (Inl (Err []))) ''#A.in|put'') ''#A.'' = ''in|put''"
    using label by simp
  from printValuesMarkdown_name_verbatim
    [of "example (Inl (Err []))" "''#A''" "[''#A.in|put'']" "''#A.in|put''"]
  show ?thesis
    using special by (simp add: plain doc label')
qed

subsection \<open>The loop body of \<open>PrintDoc\<close>\<close>

lemma formats_distinct [simp]:
  "textFormat \<noteq> markdownFormat" "textFormat \<noteq> jsonFormat" "markdownFormat \<noteq> jsonFormat"
  "markdownFormat \<noteq> textFormat" "jsonFormat \<noteq> textFormat" "jsonFormat \<noteq> markdownFormat"
  by (simp_all add: textFormat_def markdownFormat_def jsonFormat_def)

lemma elems_appendSlice [simp]: "elems (appendSlice s x) = elems s @ [x]"
  by (cases s) simp_all

lemma appendSlice_neq [simp]: "appendSlice s x \<noteq> s"
proof
  assume "appendSlice s x = s"
  then have "length (elems (appendSlice s x)) = length (elems s)" by simp
  then show False by simp
qed

lemma fieldHeader_text:
  "fieldHeader d textFormat name v val fj =
    ([Print (NL @ name @ NL @ NL @ textPadding @ valueDocString d v @ NL)], fj)"
  by (simp add: fieldHeader_def)

lemma fieldHeader_markdown:
  "fieldHeader d markdownFormat name v val fj =
    (Print (''### '' @ name @ NL @ NL)
     # (if valueDocString d v \<noteq> ''-'' then [Print (mdEscape (valueDocString d v) @ NL @ NL)]
        else []),
     fj)"
  by (simp add: fieldHeader_def)

lemma fieldHeader_json:
  "fieldHeader d jsonFormat name v val zeroFieldJSON =
    ([], \<lparr>FieldJSON.Name = name, Description = valueDocString d val,
          Inputs = NilSlice, Outputs = NilSlice\<rparr>)"
  by (simp add: fieldHeader_def zeroFieldJSON_def Let_def)

lemma fieldInputs_json:
  "fieldInputs d jsonFormat name inp fj = Inr ([], fj\<lparr>Inputs := valuesToJSON d name inp\<rparr>)"
  by (simp add: fieldInputs_def)

lemma fieldOutputs_json:
  "fieldOutputs d jsonFormat name outp fj pj =
    Inr ([], pj\<lparr>Fields := appendSlice (Fields pj) (fj\<lparr>Outputs := valuesToJSON d name outp\<rparr>)\<rparr>)"
  by (simp add: fieldOutputs_def Let_def)

lemma docField_skip: "\<not> qualifies d field \<Longrightarrow> docField d format val st field = Inr st"
  by (auto simp: docField_def qualifies_def Let_def)

lemma docField_json:
  "qualifies d field \<Longrightarrow>
    docField d jsonFormat val st field =
      Inr (st\<lparr>packageJSON := (packageJSON st)
              \<lparr>Fields := appendSlice (Fields (packageJSON st))
                  \<lparr>FieldJSON.Name = Label field, Description = valueDocString d val,
                   Inputs = valuesToJSON d (Label field) (scanInputs d (Value field)),
                   Outputs = valuesToJSON d (Label field) (scanOutputs d (Value field))\<rparr>\<rparr>\<rparr>)"
  by (simp add: docField_def qualifies_def Let_def fieldHeader_json fieldInputs_json
      fieldOutputs_json)

lemma docField_text_out:
  assumes "qualifies d field" and "docField d textFormat val st field = Inr st'"
  shows "\<exists>rest. out st' = out st @ Print (NL @ Label field @ NL @ NL @ textPadding
            @ valueDocString d (Value field) @ NL) # rest"
  using assms
  by (auto simp: docField_def qualifies_def Let_def fieldHeader_text
      split: sum.splits prod.splits)

lemma docField_markdown_out:
  assumes "qualifies d field" and "docField d markdownFormat val st field = Inr st'"
  shows "\<exists>rest. out st' = out st @ Print (''### '' @ Label field @ NL @ NL) # rest"
  using assms
  by (auto simp: docField_def qualifies_def Let_def fieldHeader_markdown
      split: sum.splits prod.splits)

lemma docField_json_fields:
  assumes "qualifies d field" and "docField d jsonFormat val st field = Inr st'"
  shows "Fields (packageJSON st') = appendSlice (Fields (packageJSON st))
              \<lparr>FieldJSON.Name = Label field, Description = valueDocString d val,
               Inputs = valuesToJSON d (Label field) (scanInputs d (Value field)),
               Outputs = valuesToJSON d (Label field) (scanOutputs d (Value field))\<rparr>"
  using assms by (auto simp: docField_json)




subsection \<open>The whole run\<close>

text \<open>In every format the loop does what it would do on the members it keeps alone.\<close>

lemma docFields_filter:
  "docFields d format val st fs = docFields d format val st (filter (qualifies d) fs)"
proof (induction fs arbitrary: st)
  case Nil
  show ?case by simp
next
  case (Cons f fs)
  show ?case
  proof (cases "qualifies d f")
    case True
    then show ?thesis by (simp add: Cons split: sum.splits)
  next
    case False
    then show ?thesis by (simp add: Cons docField_skip)
  qed
qed

text \<open>
  JSON mode never fails in the loop; it prints nothing there and appends one record for
  each member kept, in order, named by the member's label and described by the doc
  string of the package value.
\<close>

lemma docFields_json:
  "\<exists>st'. docFields d jsonFormat val st fs = Inr st'
     \<and> out st' = out st
     \<and> map FieldJSON.Name (elems (Fields (packageJSON st')))
         = map FieldJSON.Name (elems (Fields (packageJSON st)))
           @ map Label (filter (qualifies d) fs)
     \<and> map FieldJSON.Description (elems (Fields (packageJSON st')))
         = map FieldJSON.Description (elems (Fields (packageJSON st)))
           @ replicate (length (filter (qualifies d) fs)) (valueDocString d val)"
proof (induction fs arbitrary: st)
  case Nil
  show ?case by simp
next
  case (Cons f fs)
  show ?case
  proof (cases "qualifies d f")
    case False
    with Cons [of st] show ?thesis by (simp add: docField_skip)
  next
    case True
    let ?st1 = "st\<lparr>packageJSON := (packageJSON st)
              \<lparr>Fields := appendSlice (Fields (packageJSON st))
                  \<lparr>FieldJSON.Name = Label f, Description = valueDocString d val,
                   Inputs = valuesToJSON d (Label f) (scanInputs d (Value f)),
                   Outputs = valuesToJSON d (Label f) (scanOutputs d (Value f))\<rparr>\<rparr>\<rparr>"
    from Cons [of ?st1] obtain st'
      where run: "docFields d jsonFormat val ?st1 fs = Inr st'"
        and o: "out st' = out ?st1"
        and n: "map FieldJSON.Name (elems (Fields (packageJSON st')))
                 = map FieldJSON.Name (elems (Fields (packageJSON ?st1)))
                   @ map Label (filter (qualifies d) fs)"
        and c: "map FieldJSON.Description (elems (Fields (packageJSON st')))
                 = map FieldJSON.Description (elems (Fields (packageJSON ?st1)))
                   @ replicate (length (filter (qualifies d) fs)) (valueDocString d val)"
      by blast
    from True run have "docFields d jsonFormat val st (f # fs) = Inr st'"
      by (simp add: docField_json)
    moreover from o have "out st' = out st" by simp
    moreover from n True have "map FieldJSON.Name (elems (Fields (packageJSON st')))
         = map FieldJSON.Name (elems (Fields (packageJSON st)))
           @ map Label (filter (qualifies d) (f # fs))"
      by simp
    moreover from c True have "map FieldJSON.Description (elems (Fields (packageJSON st')))
         = map FieldJSON.Description (elems (Fields (packageJSON st)))
           @ replicate (length (filter (qualifies d) (f # fs))) (valueDocString d val)"
      by (simp add: replicate_append_same)
    ultimately show ?thesis by blast
  qed
qed

lemma packageHeader_json_fields:
  "Fields (packageJSON (packageHeader d packageName val jsonFormat
      \<lparr>out = [], packageJSON = zeroPackageJSON\<rparr>)) = NilSlice"
  by (simp add: packageHeader_def Let_def zeroPackageJSON_def)

lemma PrintDoc_json:
  assumes "valueFields d val = Inr flds"
  shows "\<exists>st. PrintDoc d packageName val jsonFormat = Inr st
     \<and> map FieldJSON.Name (elems (Fields (packageJSON st)))
         = map Label (filter (qualifies d) flds)
     \<and> map FieldJSON.Description (elems (Fields (packageJSON st)))
         = replicate (length (filter (qualifies d) flds)) (valueDocString d val)"
proof -
  let ?st0 = "packageHeader d packageName val jsonFormat \<lparr>out = [], packageJSON = zeroPackageJSON\<rparr>"
  from docFields_json [of d val ?st0 flds] obtain st'
    where run: "docFields d jsonFormat val ?st0 flds = Inr st'"
      and n: "map FieldJSON.Name (elems (Fields (packageJSON st')))
                 = map Label (filter (qualifies d) flds)"
      and c: "map FieldJSON.Description (elems (Fields (packageJSON st')))
                 = replicate (length (filter (qualifies d) flds)) (valueDocString d val)"
    by (auto simp: packageHeader_json_fields)
  from assms run have "PrintDoc d packageName val jsonFormat
      = Inr (emit [Document (projr (MarshalIndent (packageJSON st')))] st')"
    by (simp add: PrintDoc_def MarshalIndent_def)
  with n c show ?thesis by (simp add: emit_def)
qed

text \<open>
  C1: in JSON mode the description of every field record is the doc string of the
  package value \<open>val\<close>, whatever the doc string of the field's own value.
\<close>

theorem json_field_description_is_package_doc:
  assumes "PrintDoc d packageName val jsonFormat = Inr st"
    and "f \<in> set (elems (Fields (packageJSON st)))"
  shows "FieldJSON.Description f = valueDocString d val"
proof -
  from assms(1) obtain flds where "valueFields d val = Inr flds"
    by (cases "valueFields d val") (simp_all add: PrintDoc_def)
  from PrintDoc_json [OF this, of packageName] assms(1)
  have "map FieldJSON.Description (elems (Fields (packageJSON st)))
      = replicate (length (filter (qualifies d) flds)) (valueDocString d val)"
    by auto
  moreover from assms(2)
  have "FieldJSON.Description f \<in> set (map FieldJSON.Description (elems (Fields (packageJSON st))))"
    by simp
  ultimately show ?thesis by simp
qed

theorem json_field_description_is_package_doc_witness:
  "PrintDoc (example (Inl (Err []))) ''pkg'' ''root'' jsonFormat
     = Inr (projr (PrintDoc (example (Inl (Err []))) ''pkg'' ''root'' jsonFormat))
   \<and> hd (elems (Fields (packageJSON
            (projr (PrintDoc (example (Inl (Err []))) ''pkg'' ''root'' jsonFormat)))))
       \<in> set (elems (Fields (packageJSON
            (projr (PrintDoc (example (Inl (Err []))) ''pkg'' ''root'' jsonFormat)))))
   \<and> FieldJSON.Name (hd (elems (Fields (packageJSON
            (projr (PrintDoc (example (Inl (Err []))) ''pkg'' ''root'' jsonFormat)))))) = ''#A''
   \<and> FieldJSON.Description (hd (elems (Fields (packageJSON
            (projr (PrintDoc (example (Inl (Err []))) ''pkg'' ''root'' jsonFormat))))))
       = ''Package doc''
   \<and> valueDocString (example (Inl (Err []))) ''#A'' = ''A doc''"
proof -
  let ?st = "projr (PrintDoc (example (Inl (Err []))) ''pkg'' ''root'' jsonFormat)"
  have run: "PrintDoc (example (Inl (Err []))) ''pkg'' ''root'' jsonFormat = Inr ?st"
    by code_simp
  have names: "map FieldJSON.Name (elems (Fields (packageJSON ?st))) = [''#A'', ''#B'']"
    by code_simp
  then have mem: "hd (elems (Fields (packageJSON ?st))) \<in> set (elems (Fields (packageJSON ?st)))"
    by (cases "elems (Fields (packageJSON ?st))") simp_all
  from names have name: "FieldJSON.Name (hd (elems (Fields (packageJSON ?st)))) = ''#A''"
    by (cases "elems (Fields (packageJSON ?st))") simp_all
  have docs: "valueDocString (example (Inl (Err []))) ''root'' = ''Package doc''"
    "valueDocString (example (Inl (Err []))) ''#A'' = ''A doc''"
    by (simp_all add: example_def)
  from json_field_description_is_package_doc [OF run mem]
  have "FieldJSON.Description (hd (elems (Fields (packageJSON ?st)))) = ''Package doc''"
    by (simp only: docs)
  with run mem name docs(2) show ?thesis by (intro conjI)
qed

text \<open>
  In text and in Markdown mode a run that returns has printed, after the package header,
  one block for each member kept, in order, and each block starts with the line that
  carries the member's name.
\<close>

lemma docField_name_first:
  assumes "qualifies d field" and "format = textFormat \<or> format = markdownFormat"
    and "docField d format val st field = Inr st'"
  shows "\<exists>rest. out st' = out st @ nameLine d format field # rest"
  using assms docField_text_out [of d field val st st'] docField_markdown_out [of d field val st st']
  by (auto simp: nameLine_def)

lemma docFields_name_lines:
  assumes "format = textFormat \<or> format = markdownFormat"
    and "docFields d format val st fs = Inr st'"
  shows "\<exists>blocks. out st' = out st @ concat blocks
           \<and> map hd blocks = map (nameLine d format) (filter (qualifies d) fs)
           \<and> [] \<notin> set blocks"
  using assms(2)
proof (induction fs arbitrary: st)
  case Nil
  then have "out st' = out st @ concat []" by simp
  then show ?case by (metis (no_types) filter.simps(1) list.simps(8) empty_iff empty_set)
next
  case (Cons f fs)
  from Cons.prems obtain st1
    where step: "docField d format val st f = Inr st1"
      and rest: "docFields d format val st1 fs = Inr st'"
    by (auto split: sum.splits)
  from Cons.IH [OF rest] obtain blocks
    where o: "out st' = out st1 @ concat blocks"
      and h: "map hd blocks = map (nameLine d format) (filter (qualifies d) fs)"
      and ne: "[] \<notin> set blocks"
    by blast
  show ?case
  proof (cases "qualifies d f")
    case False
    with step have "st1 = st" by (simp add: docField_skip)
    with o h ne False show ?thesis by auto
  next
    case True
    from docField_name_first [OF True assms(1) step] obtain r
      where "out st1 = out st @ nameLine d format f # r" by blast
    with o have "out st' = out st @ concat ((nameLine d format f # r) # blocks)" by simp
    moreover from h True
    have "map hd ((nameLine d format f # r) # blocks)
        = map (nameLine d format) (filter (qualifies d) (f # fs))" by simp
    moreover from ne have "[] \<notin> set ((nameLine d format f # r) # blocks)" by simp
    ultimately show ?thesis by blast
  qed
qed

text \<open>
  Text mode fails only through \<open>terminalTrim\<close>: when the output is not a terminal, or
  the terminal is at least six columns wide, the run returns.
\<close>

lemma textRows_total:
  assumes "\<And>msg. \<exists>r. terminalTrim (getSize d) msg = Inr r"
  shows "\<exists>rows. textRows d libName vs = Inr rows"
proof (induction vs)
  case Nil
  show ?case by simp
next
  case (Cons i vs)
  from assms obtain r where "terminalTrim (getSize d) (valueDocString d i) = Inr r" by blast
  with Cons show ?case by auto
qed

lemma docField_text_total:
  assumes "\<And>msg. \<exists>r. terminalTrim (getSize d) msg = Inr r"
  shows "\<exists>st'. docField d textFormat val st field = Inr st'"
proof -
  have pv: "\<exists>os. printValuesText d libName vs = Inr os" for libName vs
    using textRows_total [OF assms, of libName vs] by (auto simp: printValuesText_def)
  have inp: "\<exists>r. fieldInputs d textFormat name vs fj = Inr r" for name vs fj
    using pv [of name vs] by (auto simp: fieldInputs_def)
  have outp: "\<exists>r. fieldOutputs d textFormat name vs fj pj = Inr r" for name vs fj pj
    using pv [of name vs] by (auto simp: fieldOutputs_def)
  show ?thesis
  proof (cases "qualifies d field")
    case False
    then show ?thesis by (simp add: docField_skip)
  next
    case True
    obtain os2 fj2 where i: "fieldInputs d textFormat (Label field) (scanInputs d (Value field))
        zeroFieldJSON = Inr (os2, fj2)"
      using inp by (metis surj_pair)
    obtain os3 pj where o: "fieldOutputs d textFormat (Label field) (scanOutputs d (Value field))
        fj2 (packageJSON st) = Inr (os3, pj)"
      using outp by (metis surj_pair)
    from True i o show ?thesis
      by (simp add: docField_def qualifies_def Let_def fieldHeader_text)
  qed
qed

lemma docFields_text_total:
  assumes "\<And>msg. \<exists>r. terminalTrim (getSize d) msg = Inr r"
  shows "\<exists>st'. docFields d textFormat val st fs = Inr st'"
proof (induction fs arbitrary: st)
  case Nil
  show ?case by simp
next
  case (Cons f fs)
  from docField_text_total [OF assms] obtain st1
    where "docField d textFormat val st f = Inr st1" by blast
  with Cons [of st1] show ?case by simp
qed

lemma PrintDoc_text_total:
  assumes flds: "valueFields d val = Inr flds"
    and gs: "getSize d = Inl err \<or> (\<exists>width height. getSize d = Inr (width, height) \<and> 6 \<le> width)"
  shows "\<exists>st. PrintDoc d packageName val textFormat = Inr st"
proof -
  have trim: "\<exists>r. terminalTrim (getSize d) msg = Inr r" for msg
  proof -
    from gs consider "getSize d = Inl err"
      | width height where "getSize d = Inr (width, height)" and "6 \<le> width"
      by blast
    then show ?thesis
    proof cases
      case 1
      then show ?thesis by (simp add: terminalTrim_no_terminal)
    next
      case 2
      with terminalTrim_wide [of width height msg] show ?thesis by simp
    qed
  qed
  from docFields_text_total [OF trim] obtain st
    where "docFields d textFormat val
        (packageHeader d packageName val textFormat \<lparr>out = [], packageJSON = zeroPackageJSON\<rparr>)
        flds = Inr st"
    by blast
  with flds show ?thesis by (simp add: PrintDoc_def)
qed

text \<open>The JSON run on the example package.\<close>

lemma example_json_document:
  "PrintDoc (example (Inl (Err []))) ''pkg'' ''root'' jsonFormat =
    Inr \<lparr>out =
        [Document
          (JObject
            [(''Name'', JString ''pkg''),
             (''Description'', JString ''Package doc''),
             (''Fields'',
              JArray
               [JObject
                 [(''Name'', JString ''#A''),
                  (''Description'', JString ''Package doc''),
                  (''Inputs'',
                   JArray
                    [JObject
                      [(''Name'', JString ''in|put''),
                       (''Type'', JString ''string''),
                       (''Description'', JString ''ab'')],
                     JObject
                      [(''Name'', JString ''y''),
                       (''Type'', JString ''string''),
                       (''Description'', JString ''-'')]]),
                  (''Outputs'', JArray [])],
                JObject
                 [(''Name'', JString ''#B''),
                  (''Description'', JString ''Package doc''),
                  (''Inputs'', JArray []), (''Outputs'', JArray [])]])])],
        packageJSON =
          \<lparr>PackageJSON.Name = ''pkg'', Description = ''Package doc'',
             Fields =
               Slice
                [\<lparr>FieldJSON.Name = ''#A'', Description = ''Package doc'',
                    Inputs =
                      Slice
                       [\<lparr>ValueJSON.Name = ''in|put'', Type = ''string'',
                           Description = ''ab''\<rparr>,
                        \<lparr>ValueJSON.Name = ''y'', Type = ''string'',
                           Description = ''-''\<rparr>],
                    Outputs = Slice []\<rparr>,
                 \<lparr>FieldJSON.Name = ''#B'', Description = ''Package doc'',
                    Inputs = Slice [], Outputs = Slice []\<rparr>]\<rparr>\<rparr>"
  by code_simp

text \<open>
  C4: the three formats do not always render the same fields. On a terminal two columns
  wide, text mode panics in the table of the inputs of \<open>#A\<close>, whose first input has the
  doc string \<open>ab\<close>, and never reaches \<open>#B\<close>; Markdown mode and JSON mode render \<open>#A\<close> and
  \<open>#B\<close>.
\<close>

theorem text_run_panics_before_last_field:
  "PrintDoc (example (Inr (2, 24))) ''pkg'' ''root'' textFormat = Inl PanicSliceBounds
   \<and> \<not> isl (PrintDoc (example (Inr (2, 24))) ''pkg'' ''root'' jsonFormat)
   \<and> map FieldJSON.Name (elems (Fields (packageJSON
          (projr (PrintDoc (example (Inr (2, 24))) ''pkg'' ''root'' jsonFormat)))))
       = [''#A'', ''#B'']
   \<and> \<not> isl (PrintDoc (example (Inr (2, 24))) ''pkg'' ''root'' markdownFormat)
   \<and> filter (\<lambda>p. p = Print (''### #A'' @ NL @ NL) \<or> p = Print (''### #B'' @ NL @ NL))
        (out (projr (PrintDoc (example (Inr (2, 24))) ''pkg'' ''root'' markdownFormat)))
       = [Print (''### #A'' @ NL @ NL), Print (''### #B'' @ NL @ NL)]"
  by code_simp

text \<open>Markdown mode never fails in the loop.\<close>

lemma docField_markdown_total: "\<exists>st'. docField d markdownFormat val st field = Inr st'"
  by (simp add: docField_def Let_def fieldHeader_markdown fieldInputs_def fieldOutputs_def)

lemma docFields_markdown_total: "\<exists>st'. docFields d markdownFormat val st fs = Inr st'"
proof (induction fs arbitrary: st)
  case Nil
  show ?case by simp
next
  case (Cons f fs)
  from docField_markdown_total [of d val st f] obtain st1
    where "docField d markdownFormat val st f = Inr st1" by blast
  with Cons [of st1] show ?case by simp
qed

text \<open>
  C5: a member that is a definition of kind struct is not always rendered. The root of
  the example package lists the definition \<open>#B\<close>, a struct, after \<open>#A\<close>. On a terminal two
  columns wide the text run panics in the iteration of \<open>#A\<close> (the slice in
  \<open>terminalTrim\<close>) and ends there, so \<open>#B\<close> is never reached; when the output is not a
  terminal the same run returns and has printed the line that carries the name of \<open>#B\<close>.
\<close>

theorem kept_member_not_rendered_after_panic:
  "valueFields (example (Inr (2, 24))) ''root'' = Inr exampleFields
   \<and> \<lparr>IsDefinition = True, Label = ''#B'', Value = ''#B''\<rparr> \<in> set exampleFields
   \<and> IsDefinition \<lparr>IsDefinition = True, Label = ''#B'', Value = ''#B''\<rparr>
   \<and> incompleteKind (example (Inr (2, 24))) ''#B'' = StructKind (example (Inr (2, 24)))
   \<and> docField (example (Inr (2, 24))) textFormat ''root''
        (packageHeader (example (Inr (2, 24))) ''pkg'' ''root'' textFormat
           \<lparr>out = [], packageJSON = zeroPackageJSON\<rparr>)
        \<lparr>IsDefinition = True, Label = ''#A'', Value = ''#A''\<rparr>
       = Inl PanicSliceBounds
   \<and> PrintDoc (example (Inr (2, 24))) ''pkg'' ''root'' textFormat = Inl PanicSliceBounds
   \<and> \<not> isl (PrintDoc (example (Inl (Err []))) ''pkg'' ''root'' textFormat)
   \<and> Print (NL @ ''#B'' @ NL @ NL @ ''    -'' @ NL)
       \<in> set (out (projr (PrintDoc (example (Inl (Err []))) ''pkg'' ''root'' textFormat)))"
  by code_simp

end
